theory Spec2Isabelle
  imports Complex_Main
begin

section \<open>JavaScript numbers\<close>

text \<open>
  The backend \<^verbatim>\<open>app.js\<close> computes with JavaScript numbers. A number is modelled as a
  finite value or one of the three non-finite values the code tests for
  (\<^verbatim>\<open>Number.isFinite\<close>) and uses (\<^verbatim>\<open>limite: Infinity\<close>). Finite values are
  rationals and the arithmetic on them is exact: the rounding error and the overflow of
  IEEE-754 binary64 are not part of this model, and neither is the sign of zero. The
  monetary amounts of the program are decimals with two places, which \<^verbatim>\<open>round2\<close>
  restores after every step.
\<close>

datatype number = Fin rat | PInf | NInf | NaN

fun isFinite :: "number \<Rightarrow> bool" where
  "isFinite (Fin r) = True"
| "isFinite _ = False"

fun isInteger :: "number \<Rightarrow> bool" where
  "isInteger (Fin r) = (r = of_int \<lfloor>r\<rfloor>)"
| "isInteger _ = False"

text \<open>The relational operators \<^verbatim>\<open><=\<close>, \<^verbatim>\<open><\<close> and \<^verbatim>\<open>>\<close>: false whenever an operand is NaN.\<close>

fun js_le :: "number \<Rightarrow> number \<Rightarrow> bool" where
  "js_le NaN _ = False"
| "js_le _ NaN = False"
| "js_le (Fin a) (Fin b) = (a \<le> b)"
| "js_le NInf _ = True"
| "js_le _ PInf = True"
| "js_le PInf _ = False"
| "js_le _ NInf = False"

fun js_lt :: "number \<Rightarrow> number \<Rightarrow> bool" where
  "js_lt NaN _ = False"
| "js_lt _ NaN = False"
| "js_lt (Fin a) (Fin b) = (a < b)"
| "js_lt PInf _ = False"
| "js_lt _ NInf = False"
| "js_lt NInf _ = True"
| "js_lt _ PInf = True"

definition js_gt :: "number \<Rightarrow> number \<Rightarrow> bool" where
  "js_gt a b = js_lt b a"

text \<open>Strict equality \<^verbatim>\<open>===\<close> on numbers: NaN equals nothing.\<close>

definition js_eq :: "number \<Rightarrow> number \<Rightarrow> bool" where
  "js_eq a b = (a \<noteq> NaN \<and> b \<noteq> NaN \<and> a = b)"

fun js_neg :: "number \<Rightarrow> number" where
  "js_neg (Fin a) = Fin (- a)"
| "js_neg PInf = NInf"
| "js_neg NInf = PInf"
| "js_neg NaN = NaN"

fun js_add :: "number \<Rightarrow> number \<Rightarrow> number" where
  "js_add NaN _ = NaN"
| "js_add _ NaN = NaN"
| "js_add (Fin a) (Fin b) = Fin (a + b)"
| "js_add PInf NInf = NaN"
| "js_add NInf PInf = NaN"
| "js_add PInf _ = PInf"
| "js_add _ PInf = PInf"
| "js_add NInf _ = NInf"
| "js_add _ NInf = NInf"

definition js_sub :: "number \<Rightarrow> number \<Rightarrow> number" where
  "js_sub a b = js_add a (js_neg b)"

text \<open>The sign of a non-NaN number, for products and quotients with an infinite operand.\<close>

fun js_sign :: "number \<Rightarrow> int" where
  "js_sign (Fin a) = (if a < 0 then - 1 else if a = 0 then 0 else 1)"
| "js_sign PInf = 1"
| "js_sign NInf = - 1"
| "js_sign NaN = 0"

definition signed_inf :: "int \<Rightarrow> number" where
  "signed_inf s = (if s = 0 then NaN else if s < 0 then NInf else PInf)"

fun js_mul :: "number \<Rightarrow> number \<Rightarrow> number" where
  "js_mul NaN _ = NaN"
| "js_mul _ NaN = NaN"
| "js_mul (Fin a) (Fin b) = Fin (a * b)"
| "js_mul a b = signed_inf (js_sign a * js_sign b)"

fun js_div :: "number \<Rightarrow> number \<Rightarrow> number" where
  "js_div NaN _ = NaN"
| "js_div _ NaN = NaN"
| "js_div (Fin a) (Fin b) = (if b = 0 then signed_inf (js_sign (Fin a)) else Fin (a / b))"
| "js_div (Fin a) _ = Fin 0"
| "js_div a (Fin b) = signed_inf (js_sign a * (if b < 0 then - 1 else 1))"
| "js_div _ _ = NaN"

text \<open>\<^verbatim>\<open>Math.max\<close>, \<^verbatim>\<open>Math.min\<close> (NaN if an argument is NaN) and \<^verbatim>\<open>Math.round\<close>
  (the nearest integer, a tie going up).\<close>

definition Math_max :: "number \<Rightarrow> number \<Rightarrow> number" where
  "Math_max a b = (if a = NaN \<or> b = NaN then NaN else if js_le a b then b else a)"

definition Math_min :: "number \<Rightarrow> number \<Rightarrow> number" where
  "Math_min a b = (if a = NaN \<or> b = NaN then NaN else if js_le a b then a else b)"

fun Math_round :: "number \<Rightarrow> number" where
  "Math_round (Fin a) = Fin (of_int \<lfloor>a + 1 / 2\<rfloor>)"
| "Math_round x = x"

definition Number_EPSILON :: number where
  "Number_EPSILON = Fin (1 / 2 ^ 52)"

section \<open>Constants, rounding and the bracket table\<close>

definition DEDUCAO_POR_DEPENDENTE :: number where
  "DEDUCAO_POR_DEPENDENTE = Fin 189.59"

definition DESCONTO_SIMPLIFICADO_MINIMO :: number where
  "DESCONTO_SIMPLIFICADO_MINIMO = Fin 607.20"

definition round2 :: "number \<Rightarrow> number" where
  "round2 v = js_div (Math_round (js_mul (js_add v Number_EPSILON) (Fin 100))) (Fin 100)"

record faixa_tabela =
  limite :: number
  aliquota :: number
  deducao :: number

definition TABELA_IRRF_052025 :: "faixa_tabela list" where
  "TABELA_IRRF_052025 =
    [\<lparr>limite = Fin 2428.80, aliquota = Fin 0.0, deducao = Fin 0.0\<rparr>,
     \<lparr>limite = Fin 2826.65, aliquota = Fin 7.5, deducao = Fin 182.16\<rparr>,
     \<lparr>limite = Fin 3751.05, aliquota = Fin 15.0, deducao = Fin 394.16\<rparr>,
     \<lparr>limite = Fin 4664.68, aliquota = Fin 22.5, deducao = Fin 675.49\<rparr>,
     \<lparr>limite = PInf, aliquota = Fin 27.5, deducao = Fin 908.73\<rparr>]"

text \<open>The \<^verbatim>\<open>for ... of\<close> loop of \<^verbatim>\<open>escolherFaixa\<close>: the first row whose limit admits the
  base is returned from inside the loop; \<open>None\<close> is the loop running to its end.\<close>

fun escolherFaixa_loop :: "faixa_tabela list \<Rightarrow> number \<Rightarrow> faixa_tabela option" where
  "escolherFaixa_loop [] base = None"
| "escolherFaixa_loop (f # fs) base =
     (if js_le base (limite f) then Some f else escolherFaixa_loop fs base)"

definition escolherFaixa :: "number \<Rightarrow> faixa_tabela" where
  "escolherFaixa base =
     (case escolherFaixa_loop TABELA_IRRF_052025 base of
        Some f \<Rightarrow> f
      | None \<Rightarrow> TABELA_IRRF_052025 ! (length TABELA_IRRF_052025 - 1))"

section \<open>The computation of \<^verbatim>\<open>POST /calcular-irrf\<close>\<close>

text \<open>The four request fields after validation, all of them numbers.\<close>

record entrada =
  rendimento_tributavel :: number
  previdencia_oficial :: number
  quantidade_dependentes :: number
  pensao_alimenticia :: number

text \<open>Every \<^verbatim>\<open>const\<close> of the handler is a function of the four fields. The lines up to
  \<^verbatim>\<open>valor_irrf\<close> are the same in both variants of the backend.\<close>

definition deducao_dependentes :: "entrada \<Rightarrow> number" where
  "deducao_dependentes e = round2 (js_mul (quantidade_dependentes e) DEDUCAO_POR_DEPENDENTE)"

definition soma_deducoes :: "entrada \<Rightarrow> number" where
  "soma_deducoes e =
     round2 (js_add (js_add (previdencia_oficial e) (deducao_dependentes e))
                    (round2 (pensao_alimenticia e)))"

definition deducao_total_aplicada :: "entrada \<Rightarrow> number" where
  "deducao_total_aplicada e = round2 (Math_max (soma_deducoes e) DESCONTO_SIMPLIFICADO_MINIMO)"

definition simplificado_minimo_usado :: "entrada \<Rightarrow> bool" where
  "simplificado_minimo_usado e = js_gt DESCONTO_SIMPLIFICADO_MINIMO (soma_deducoes e)"

definition base_liquida_irrf :: "entrada \<Rightarrow> number" where
  "base_liquida_irrf e = round2 (js_sub (rendimento_tributavel e) (deducao_total_aplicada e))"

definition faixa :: "entrada \<Rightarrow> faixa_tabela" where
  "faixa e = escolherFaixa (base_liquida_irrf e)"

definition aliquota_irrf :: "entrada \<Rightarrow> number" where
  "aliquota_irrf e = aliquota (faixa e)"

definition deducao_conforme_tabela :: "entrada \<Rightarrow> number" where
  "deducao_conforme_tabela e = deducao (faixa e)"

definition valor_irrf :: "entrada \<Rightarrow> number" where
  "valor_irrf e =
     (let v0 = js_sub (js_mul (base_liquida_irrf e) (js_div (aliquota_irrf e) (Fin 100)))
                      (deducao_conforme_tabela e);
          v1 = (if \<not> isFinite v0 then Fin 0 else v0);
          v2 = (if js_lt v1 (Fin 0) then Fin 0 else v1)
      in round2 v2)"

subsection \<open>Variant 1: the reduction of PL 1087/25 assigned and then limited\<close>

definition reducao_pl_1087_25 :: "entrada \<Rightarrow> number" where
  "reducao_pl_1087_25 e =
     (let r = (if js_le (rendimento_tributavel e) (Fin 5000) then Fin 312.89
               else if js_gt (rendimento_tributavel e) (Fin 5000)
                       \<and> js_le (rendimento_tributavel e) (Fin 7350)
                    then js_sub (Fin 978.62) (js_mul (Fin 0.133145) (rendimento_tributavel e))
               else Fin 0)
      in Math_max (Fin 0) (Math_min (round2 r) (valor_irrf e)))"

definition valor_irrf_apos_pl_1087_25_v1 :: "entrada \<Rightarrow> number" where
  "valor_irrf_apos_pl_1087_25_v1 e = round2 (js_sub (valor_irrf e) (reducao_pl_1087_25 e))"

subsection \<open>Variant 2: the reduction by formula, forced to zero on a zero tax\<close>

definition reducao_pl_formula :: "entrada \<Rightarrow> number" where
  "reducao_pl_formula e =
     (let r0 = (if js_le (rendimento_tributavel e) (Fin 5000)
                  then round2 (Math_min (valor_irrf e) (Fin 312.89))
                else if js_le (rendimento_tributavel e) (Fin 7350)
                  then round2 (js_sub (Fin 978.62) (js_mul (Fin 0.133145) (rendimento_tributavel e)))
                else Fin 0);
          r1 = (if js_eq (valor_irrf e) (Fin 0) then Fin 0 else r0)
      in round2 (Math_max (Fin 0) (Math_min r1 (valor_irrf e))))"

definition reducao_pl_aplicada :: "entrada \<Rightarrow> number" where
  "reducao_pl_aplicada e = Math_max (Fin 0) (Math_min (reducao_pl_formula e) (valor_irrf e))"

definition valor_irrf_apos_pl_1087_25_v2 :: "entrada \<Rightarrow> number" where
  "valor_irrf_apos_pl_1087_25_v2 e = round2 (js_sub (valor_irrf e) (reducao_pl_aplicada e))"

section \<open>Requests and responses\<close>

text \<open>
  A JavaScript value as it arrives in a parsed JSON body and as it is put into the
  response. A string is the list of the bytes of its UTF-8 encoding. An object literal
  of the source is the list of its properties in the order they are written; the
  spread of a conditional object is the concatenation of such lists.
\<close>

datatype jsval =
    JUndefined
  | JNull
  | JBool bool
  | JNum number
  | JStr string
  | JArr "jsval list"
  | JObj "(string \<times> jsval) list"

text \<open>\<^verbatim>\<open>req.body\<close>: the parsed object, or \<open>None\<close> when there is none.\<close>

type_synonym body = "(string \<rightharpoonup> jsval) option"

text \<open>Reading a property: a missing one is \<^verbatim>\<open>undefined\<close>.\<close>

definition get_prop :: "(string \<rightharpoonup> jsval) \<Rightarrow> string \<Rightarrow> jsval" where
  "get_prop obj k = (case obj k of Some v \<Rightarrow> v | None \<Rightarrow> JUndefined)"

text \<open>The operator \<^verbatim>\<open>??\<close>: the right operand replaces \<^verbatim>\<open>null\<close> and \<^verbatim>\<open>undefined\<close> only.\<close>

definition nullish :: "jsval \<Rightarrow> jsval \<Rightarrow> jsval" where
  "nullish a b = (if a = JUndefined \<or> a = JNull then b else a)"

fun isFiniteNumber :: "jsval \<Rightarrow> bool" where
  "isFiniteNumber (JNum x) = isFinite x"
| "isFiniteNumber _ = False"

text \<open>The number held by a value that passed \<^verbatim>\<open>isFiniteNumber\<close>; the handler reads no
  other value as a number.\<close>

fun numero :: "jsval \<Rightarrow> number" where
  "numero (JNum x) = x"
| "numero _ = NaN"

text \<open>The destructuring of \<^verbatim>\<open>req.body || {}\<close> and the alimony with its fallback key
  (the key with a trailing space) and its default \<open>0\<close>.\<close>

definition campos :: "body \<Rightarrow> jsval \<times> jsval \<times> jsval \<times> jsval" where
  "campos b =
     (let obj = (case b of Some ob \<Rightarrow> ob | None \<Rightarrow> Map.empty);
          rendimento_tributavel = get_prop obj ''rendimento_tributavel'';
          previdencia_oficial = get_prop obj ''previdencia_oficial'';
          quantidade_dependentes = get_prop obj ''quantidade_dependentes'';
          pensao_alimenticia =
            nullish (case b of
                       None \<Rightarrow> JUndefined
                     | Some ob \<Rightarrow> nullish (get_prop ob ''pensao_alimenticia'')
                                         (get_prop ob ''pensao_alimenticia ''))
                    (JNum (Fin 0))
      in (rendimento_tributavel, previdencia_oficial, quantidade_dependentes,
          pensao_alimenticia))"

text \<open>\<^verbatim>\<open>res.status(400).json({ erro: ... })\<close> is the error value, with its message.\<close>

datatype error = Status400 string

definition erro_campos_invalidos :: string where
  "erro_campos_invalidos =
     (''Campos inv'' @ [CHR 0xC3, CHR 0xA1] @ ''lidos: envie n'' @ [CHR 0xC3, CHR 0xBA]
     @ ''meros em rendimento_tributavel, previdencia_oficial, quantidade_dependentes e pensao_alimenticia.'')"

definition erro_negativos :: string where
  "erro_negativos =
     (''rendimento_tributavel, previdencia_oficial e pensao_alimenticia n''
     @ [CHR 0xC3, CHR 0xA3] @ ''o podem ser negativos.'')"

definition erro_dependentes :: string where
  "erro_dependentes =
     (''quantidade_dependentes deve ser inteiro n'' @ [CHR 0xC3, CHR 0xA3]
     @ ''o negativo.'')"

text \<open>The three checks under \<^verbatim>\<open>// Validacoes basicas\<close>, in the order of the source; each
  returns at once.\<close>

definition validacoes :: "body \<Rightarrow> error + entrada" where
  "validacoes b =
     (case campos b of (rt, po, qd, pa) \<Rightarrow>
        if \<not> isFiniteNumber rt \<or> \<not> isFiniteNumber po \<or> \<not> isFiniteNumber qd
           \<or> \<not> isFiniteNumber pa
        then Inl (Status400 erro_campos_invalidos)
        else if js_lt (numero rt) (Fin 0) \<or> js_lt (numero po) (Fin 0)
                \<or> js_lt (numero pa) (Fin 0)
        then Inl (Status400 erro_negativos)
        else if \<not> isInteger (numero qd) \<or> js_lt (numero qd) (Fin 0)
        then Inl (Status400 erro_dependentes)
        else Inr \<lparr>rendimento_tributavel = numero rt, previdencia_oficial = numero po,
                  quantidade_dependentes = numero qd, pensao_alimenticia = numero pa\<rparr>)"

definition mensagem_nao_se_aplica :: string where
  "mensagem_nao_se_aplica =
     (''A dedu'' @ [CHR 0xC3, CHR 0xA7] @ [CHR 0xC3, CHR 0xA3]
     @ ''o prevista na PL 1085/25 n'' @ [CHR 0xC3, CHR 0xA3]
     @ ''o se aplica porque o rendimento tribut'' @ [CHR 0xC3, CHR 0xA1]
     @ ''vel ultrapassa R$ 7.350,00.'')"

text \<open>The part of \<^verbatim>\<open>resposta\<close> that both variants write alike, up to \<^verbatim>\<open>valor_irrf\<close>.\<close>

definition resposta_comum :: "entrada \<Rightarrow> (string \<times> jsval) list" where
  "resposta_comum e =
     [(''rendimento_tributavel'', JNum (rendimento_tributavel e))]
     @ (if \<not> simplificado_minimo_usado e then
          [(''previdencia_oficial'', JNum (previdencia_oficial e)),
           (''quantidade_dependentes'', JNum (quantidade_dependentes e)),
           (''pensao_alimenticia'', JNum (round2 (pensao_alimenticia e))),
           (''valor_deducoes_dependentes'', JNum (round2 (deducao_dependentes e)))]
        else [])
     @ (if simplificado_minimo_usado e then
          [(''desconto_simplificado_aplicado'', JNum DESCONTO_SIMPLIFICADO_MINIMO)]
        else [])
     @ [(''base_liquida_irrf'', JNum (round2 (base_liquida_irrf e))),
        (''aliquota_irrf'', JNum (aliquota_irrf e)),
        (''deducao_conforme_tabela'', JNum (round2 (deducao_conforme_tabela e))),
        (''valor_irrf'', JNum (valor_irrf e))]"

definition resposta_v1 :: "entrada \<Rightarrow> (string \<times> jsval) list" where
  "resposta_v1 e =
     resposta_comum e
     @ (if js_gt (rendimento_tributavel e) (Fin 7350) then
          [(''mensagem'', JStr mensagem_nao_se_aplica)]
        else
          [(''reducao_pl_1087_25'', JNum (reducao_pl_1087_25 e)),
           (''valor_irrf_apos_pl_1087_25'', JNum (valor_irrf_apos_pl_1087_25_v1 e))])"

definition calcular_irrf_v1 :: "body \<Rightarrow> error + (string \<times> jsval) list" where
  "calcular_irrf_v1 b =
     (case validacoes b of Inl err \<Rightarrow> Inl err | Inr e \<Rightarrow> Inr (resposta_v1 e))"

subsection \<open>Variant 2: the calculation trace and the response\<close>

text \<open>The nine object literals of \<^verbatim>\<open>memoria_calculo.etapas\<close>, one definition each, in the
  order of the array.\<close>

definition etapa_1 :: "entrada \<Rightarrow> jsval" where
  "etapa_1 e =
     JObj [(''ordem'', JNum (Fin 1)),
           (''titulo'', JStr
              (''C'' @ [CHR 0xC3, CHR 0xA1] @ ''lculo da dedu'' @ [CHR 0xC3, CHR 0xA7]
              @ [CHR 0xC3, CHR 0xA3] @ ''o por dependentes'')),
           (''descricao'', JStr
              (''Quantidade de dependentes multiplicada pelo valor de dedu''
              @ [CHR 0xC3, CHR 0xA7] @ [CHR 0xC3, CHR 0xA3] @ ''o por dependente.'')),
           (''formula'', JStr ''quantidade_dependentes * 189,59''),
           (''valores'',
             JObj [(''quantidade_dependentes'', JNum (quantidade_dependentes e)),
                   (''valor_por_dependente'', JNum DEDUCAO_POR_DEPENDENTE)]),
           (''resultado'', JNum (deducao_dependentes e))]"

definition etapa_2 :: "entrada \<Rightarrow> jsval" where
  "etapa_2 e =
     JObj [(''ordem'', JNum (Fin 2)),
           (''titulo'', JStr
              (''C'' @ [CHR 0xC3, CHR 0xA1] @ ''lculo das dedu'' @ [CHR 0xC3, CHR 0xA7]
              @ [CHR 0xC3, CHR 0xB5] @ ''es legais'')),
           (''descricao'', JStr
              (''Soma da Previd'' @ [CHR 0xC3, CHR 0xAA] @ ''ncia Oficial, pens''
              @ [CHR 0xC3, CHR 0xA3] @ ''o aliment'' @ [CHR 0xC3, CHR 0xAD]
              @ ''cia e a dedu'' @ [CHR 0xC3, CHR 0xA7] @ [CHR 0xC3, CHR 0xA3]
              @ ''o por dependentes.'')),
           (''formula'', JStr ''previdencia_oficial + pensao_alimenticia + deducao_dependentes''),
           (''valores'',
             JObj [(''previdencia_oficial'', JNum (round2 (previdencia_oficial e))),
                   (''pensao_alimenticia'', JNum (round2 (pensao_alimenticia e))),
                   (''deducao_dependentes'', JNum (deducao_dependentes e))]),
           (''resultado'', JNum (soma_deducoes e))]"

definition etapa_3 :: "entrada \<Rightarrow> jsval" where
  "etapa_3 e =
     JObj [(''ordem'', JNum (Fin 3)),
           (''titulo'', JStr
              (''Escolha da dedu'' @ [CHR 0xC3, CHR 0xA7] @ [CHR 0xC3, CHR 0xA3]
              @ ''o aplicada'')),
           (''descricao'', JStr
              (''Maior valor entre soma das dedu'' @ [CHR 0xC3, CHR 0xA7]
              @ [CHR 0xC3, CHR 0xB5] @ ''es legais e o desconto simplificado m''
              @ [CHR 0xC3, CHR 0xAD] @ ''nimo.'')),
           (''formula'', JStr ''max(soma_deducoes, 607,20)''),
           (''valores'',
             JObj [(''soma_deducoes'', JNum (soma_deducoes e)),
                   (''desconto_simplificado_minimo'', JNum DESCONTO_SIMPLIFICADO_MINIMO),
                   (''utilizou_simplificado_minimo'', JBool (simplificado_minimo_usado e))]),
           (''resultado'', JNum (deducao_total_aplicada e))]"

definition etapa_4 :: "entrada \<Rightarrow> jsval" where
  "etapa_4 e =
     JObj [(''ordem'', JNum (Fin 4)),
           (''titulo'', JStr (''Base l'' @ [CHR 0xC3, CHR 0xAD] @ ''quida do IRRF'')),
           (''descricao'', JStr
              (''Rendimento tribut'' @ [CHR 0xC3, CHR 0xA1] @ ''vel menos a dedu''
              @ [CHR 0xC3, CHR 0xA7] @ [CHR 0xC3, CHR 0xA3] @ ''o aplicada.'')),
           (''formula'', JStr ''rendimento_tributavel - deducao_total_aplicada''),
           (''valores'',
             JObj [(''rendimento_tributavel'', JNum (round2 (rendimento_tributavel e))),
                   (''deducao_total_aplicada'', JNum (deducao_total_aplicada e))]),
           (''resultado'', JNum (base_liquida_irrf e))]"

definition etapa_5 :: "entrada \<Rightarrow> jsval" where
  "etapa_5 e =
     JObj [(''ordem'', JNum (Fin 5)),
           (''titulo'', JStr ''Faixa da tabela progressiva''),
           (''descricao'', JStr
              (''Determina'' @ [CHR 0xC3, CHR 0xA7] @ [CHR 0xC3, CHR 0xA3] @ ''o da al''
              @ [CHR 0xC3, CHR 0xAD] @ ''quota e parcela a deduzir conforme a base l''
              @ [CHR 0xC3, CHR 0xAD] @ ''quida.'')),
           (''formula'', JStr ''tabela progressiva mensal 05/2025''),
           (''valores'',
             JObj [(''base_liquida_irrf'', JNum (base_liquida_irrf e)),
                   (''aliquota'', JNum (aliquota_irrf e)),
                   (''deducao_conforme_tabela'', JNum (round2 (deducao_conforme_tabela e)))]),
           (''resultado'', JObj [(''aliquota'', JNum (aliquota_irrf e)),
                   (''deducao'', JNum (round2 (deducao_conforme_tabela e)))])]"

definition etapa_6 :: "entrada \<Rightarrow> jsval" where
  "etapa_6 e =
     JObj [(''ordem'', JNum (Fin 6)),
           (''titulo'', JStr ''Imposto pela tabela progressiva''),
           (''descricao'', JStr
              (''C'' @ [CHR 0xC3, CHR 0xA1] @ ''lculo do IR pela base l''
              @ [CHR 0xC3, CHR 0xAD] @ ''quida.'')),
           (''formula'', JStr ''base_liquida_irrf * (aliquota/100) - deducao_conforme_tabela''),
           (''valores'',
             JObj [(''base_liquida_irrf'', JNum (base_liquida_irrf e)),
                   (''aliquota'', JNum (aliquota_irrf e)),
                   (''deducao_conforme_tabela'', JNum (round2 (deducao_conforme_tabela e)))]),
           (''resultado'', JNum (valor_irrf e))]"

definition etapa_7 :: "entrada \<Rightarrow> jsval" where
  "etapa_7 e =
     JObj [(''ordem'', JNum (Fin 7)),
           (''titulo'', JStr
              (''Redu'' @ [CHR 0xC3, CHR 0xA7] @ [CHR 0xC3, CHR 0xA3]
              @ ''o PL 1087/25 (regra aplicada)'')),
           (''descricao'', JStr
              (''C'' @ [CHR 0xC3, CHR 0xA1] @ ''lculo da redu'' @ [CHR 0xC3, CHR 0xA7]
              @ [CHR 0xC3, CHR 0xA3] @ ''o conforme a faixa de rendimento e limita''
              @ [CHR 0xC3, CHR 0xA7] @ [CHR 0xC3, CHR 0xB5]
              @ ''es legais, limitada ao imposto devido.'')),
           (''formula'', JStr (if js_le (rendimento_tributavel e) (Fin 5000) then ''min(valor_irrf, 312,89)''
                 else if js_le (rendimento_tributavel e) (Fin 7350)
                 then ''max(0, min(978,62 - 0,133145 * rendimento_tributavel, valor_irrf))''
                 else ''0'')),
           (''valores'',
             JObj [(''rendimento_tributavel'', JNum (round2 (rendimento_tributavel e))),
                   (''valor_irrf'', JNum (valor_irrf e)),
                   (''limite_superior'', JNum (Fin 7350))]),
           (''resultado'', JNum (reducao_pl_formula e))]"

definition etapa_8 :: "entrada \<Rightarrow> jsval" where
  "etapa_8 e =
     JObj [(''ordem'', JNum (Fin 8)),
           (''titulo'', JStr
              (''Redu'' @ [CHR 0xC3, CHR 0xA7] @ [CHR 0xC3, CHR 0xA3]
              @ ''o aplicada ao imposto'')),
           (''descricao'', JStr
              (''Limita'' @ [CHR 0xC3, CHR 0xA7] @ [CHR 0xC3, CHR 0xA3] @ ''o da redu''
              @ [CHR 0xC3, CHR 0xA7] @ [CHR 0xC3, CHR 0xA3] @ ''o ao imposto devido (n''
              @ [CHR 0xC3, CHR 0xA3] @ ''o negativa).'')),
           (''formula'', JStr ''min(max(reducao_pl, 0), valor_irrf)''),
           (''valores'',
             JObj [(''reducao_pl_calculada'', JNum (reducao_pl_formula e)),
                   (''valor_irrf'', JNum (valor_irrf e))]),
           (''resultado'', JNum (reducao_pl_aplicada e))]"

definition etapa_9 :: "entrada \<Rightarrow> jsval" where
  "etapa_9 e =
     JObj [(''ordem'', JNum (Fin 9)),
           (''titulo'', JStr (''IRRF ap'' @ [CHR 0xC3, CHR 0xB3] @ ''s PL 1087/25'')),
           (''descricao'', JStr
              (''Imposto final ap'' @ [CHR 0xC3, CHR 0xB3] @ ''s aplicar a redu''
              @ [CHR 0xC3, CHR 0xA7] @ [CHR 0xC3, CHR 0xA3] @ ''o da PL, quando aplic''
              @ [CHR 0xC3, CHR 0xA1] @ ''vel.'')),
           (''formula'', JStr ''valor_irrf - reducao_pl_aplicada''),
           (''valores'',
             JObj [(''valor_irrf'', JNum (valor_irrf e)),
                   (''reducao_pl_aplicada'', JNum (reducao_pl_aplicada e))]),
           (''resultado'', JNum (valor_irrf_apos_pl_1087_25_v2 e))]"

definition memoria_calculo :: "entrada \<Rightarrow> jsval" where
  "memoria_calculo e =
     JObj [(''entradas'',
             JObj [(''rendimento_tributavel'', JNum (round2 (rendimento_tributavel e))),
                   (''previdencia_oficial'', JNum (round2 (previdencia_oficial e))),
                   (''quantidade_dependentes'', JNum (quantidade_dependentes e)),
                   (''pensao_alimenticia'', JNum (round2 (pensao_alimenticia e)))]),
           (''etapas'',
             JArr [etapa_1 e, etapa_2 e, etapa_3 e, etapa_4 e, etapa_5 e, etapa_6 e,
                   etapa_7 e, etapa_8 e, etapa_9 e])]"

definition resposta_v2 :: "entrada \<Rightarrow> (string \<times> jsval) list" where
  "resposta_v2 e =
     resposta_comum e
     @ [(''reducao_pl_1087_25'', JNum (reducao_pl_formula e))]
     @ (if js_gt (rendimento_tributavel e) (Fin 7350) then
          [(''mensagem'', JStr mensagem_nao_se_aplica)]
        else
          [(''valor_irrf_apos_pl_1087_25'', JNum (valor_irrf_apos_pl_1087_25_v2 e))])
     @ [(''memoria_calculo'', memoria_calculo e)]"

definition calcular_irrf_v2 :: "body \<Rightarrow> error + (string \<times> jsval) list" where
  "calcular_irrf_v2 b =
     (case validacoes b of Inl err \<Rightarrow> Inl err | Inr e \<Rightarrow> Inr (resposta_v2 e))"

section \<open>Notions used to state the properties\<close>


text \<open>A field that holds a finite number, and the number it holds.\<close>

definition numero_finito :: "jsval \<Rightarrow> bool" where
  "numero_finito v = (case v of JNum (Fin r) \<Rightarrow> True | _ \<Rightarrow> False)"

definition valor :: "jsval \<Rightarrow> rat" where
  "valor v = (case v of JNum (Fin r) \<Rightarrow> r | _ \<Rightarrow> 0)"

text \<open>The request body \<^verbatim>\<open>{rendimento_tributavel: rt, previdencia_oficial: po,
  quantidade_dependentes: qd, pensao_alimenticia: pa}\<close> with four finite numbers, and the
  four fields read from it.\<close>

definition corpo :: "rat \<Rightarrow> rat \<Rightarrow> rat \<Rightarrow> rat \<Rightarrow> body" where
  "corpo rt po qd pa =
     Some [''rendimento_tributavel'' \<mapsto> JNum (Fin rt),
           ''previdencia_oficial'' \<mapsto> JNum (Fin po),
           ''quantidade_dependentes'' \<mapsto> JNum (Fin qd),
           ''pensao_alimenticia'' \<mapsto> JNum (Fin pa)]"

definition entrada_de :: "rat \<Rightarrow> rat \<Rightarrow> rat \<Rightarrow> rat \<Rightarrow> entrada" where
  "entrada_de rt po qd pa =
     \<lparr>rendimento_tributavel = Fin rt, previdencia_oficial = Fin po,
      quantidade_dependentes = Fin qd, pensao_alimenticia = Fin pa\<rparr>"

section \<open>Rounding to cents\<close>

lemma round2_Fin:
  "round2 (Fin r) = Fin (of_int \<lfloor>(r + 1 / 2 ^ 52) * 100 + 1 / 2\<rfloor> / 100)"
  by (simp add: round2_def Number_EPSILON_def)


text \<open>An amount of whole cents is a fixed point of \<open>round2\<close>: the epsilon added before
  the multiplication is far below half a cent.\<close>

lemma round2_cents: "round2 (Fin (of_int k / 100)) = Fin (of_int k / 100)"
proof -
  have "(of_int k / 100 + 1 / 2 ^ 52) * 100 + 1 / 2 = of_int k + ((100 / 2 ^ 52 + 1 / 2)::rat)"
    by (simp add: algebra_simps)
  moreover have "\<lfloor>of_int k + ((100 / 2 ^ 52 + 1 / 2)::rat)\<rfloor> = k"
    by (rule floor_unique) simp_all
  ultimately show ?thesis unfolding round2_Fin by simp
qed




lemma round2_zero: "round2 (Fin 0) = Fin 0"
  using round2_cents [of 0] by simp








section \<open>Bracket selection\<close>

lemma escolherFaixa_loop_find:
  "escolherFaixa_loop fs base = find (\<lambda>f. js_le base (limite f)) fs"
  by (induction fs) simp_all




text \<open>The loop on any table: it returns the row at the least index whose limit admits
  the base, and runs to its end exactly when no limit does.\<close>

lemma escolherFaixa_loop_first:
  "i < length fs \<Longrightarrow> js_le base (limite (fs ! i))
   \<Longrightarrow> (\<forall>j<i. \<not> js_le base (limite (fs ! j)))
   \<Longrightarrow> escolherFaixa_loop fs base = Some (fs ! i)"
proof (induction fs arbitrary: i)
  case Nil
  then show ?case by simp
next
  case (Cons f fs)
  show ?case
  proof (cases i)
    case 0
    with Cons.prems show ?thesis by simp
  next
    case (Suc k)
    with Cons.prems have "\<not> js_le base (limite f)" by auto
    moreover have "escolherFaixa_loop fs base = Some (fs ! k)"
    proof (rule Cons.IH)
      show "k < length fs" using Cons.prems(1) Suc by simp
      show "js_le base (limite (fs ! k))" using Cons.prems(2) Suc by simp
      show "\<forall>j<k. \<not> js_le base (limite (fs ! j))"
      proof (intro allI impI)
        fix j assume "j < k"
        then have "Suc j < i" using Suc by simp
        with Cons.prems(3) have "\<not> js_le base (limite ((f # fs) ! Suc j))" by blast
        then show "\<not> js_le base (limite (fs ! j))" by simp
      qed
    qed
    ultimately show ?thesis using Suc by simp
  qed
qed

lemma escolherFaixa_loop_none:
  "(\<forall>j<length fs. \<not> js_le base (limite (fs ! j))) \<Longrightarrow> escolherFaixa_loop fs base = None"
proof (induction fs)
  case Nil
  then show ?case by simp
next
  case (Cons f fs)
  from Cons.prems have "\<not> js_le base (limite ((f # fs) ! 0))" by blast
  then have h: "\<not> js_le base (limite f)" by simp
  have "\<forall>j<length fs. \<not> js_le base (limite (fs ! j))"
  proof (intro allI impI)
    fix j assume "j < length fs"
    then have "Suc j < length (f # fs)" by simp
    with Cons.prems have "\<not> js_le base (limite ((f # fs) ! Suc j))" by blast
    then show "\<not> js_le base (limite (fs ! j))" by simp
  qed
  with Cons.IH h show ?case by simp
qed

text \<open>
  Claim C2. For every base, \<open>escolherFaixa\<close> scans the five rows of the table in order
  and returns the first row whose limit is at least the base, and the last row when no
  limit is (the base is NaN); a base equal to the limit of a row selects that row, not
  the next one.
\<close>

theorem escolherFaixa_first_match:
  "length TABELA_IRRF_052025 = 5
   \<and> escolherFaixa base =
       (case find (\<lambda>f. js_le base (limite f)) TABELA_IRRF_052025 of
          Some f \<Rightarrow> f | None \<Rightarrow> last TABELA_IRRF_052025)
   \<and> (\<forall>i<5. js_le base (limite (TABELA_IRRF_052025 ! i))
              \<and> (\<forall>j<i. \<not> js_le base (limite (TABELA_IRRF_052025 ! j)))
         \<longrightarrow> escolherFaixa base = TABELA_IRRF_052025 ! i)
   \<and> ((\<forall>j<5. \<not> js_le base (limite (TABELA_IRRF_052025 ! j)))
         \<longrightarrow> escolherFaixa base = TABELA_IRRF_052025 ! 4)
   \<and> (\<forall>i<5. escolherFaixa (limite (TABELA_IRRF_052025 ! i)) = TABELA_IRRF_052025 ! i)"
proof (intro conjI)
  show len: "length TABELA_IRRF_052025 = 5"
    by (simp add: TABELA_IRRF_052025_def)
  show "escolherFaixa base =
       (case find (\<lambda>f. js_le base (limite f)) TABELA_IRRF_052025 of
          Some f \<Rightarrow> f | None \<Rightarrow> last TABELA_IRRF_052025)"
    by (simp add: escolherFaixa_def escolherFaixa_loop_find)
       (simp add: TABELA_IRRF_052025_def)
  show "\<forall>i<5. js_le base (limite (TABELA_IRRF_052025 ! i))
              \<and> (\<forall>j<i. \<not> js_le base (limite (TABELA_IRRF_052025 ! j)))
         \<longrightarrow> escolherFaixa base = TABELA_IRRF_052025 ! i"
  proof (intro allI impI)
    fix i :: nat
    assume "i < 5"
      and "js_le base (limite (TABELA_IRRF_052025 ! i))
           \<and> (\<forall>j<i. \<not> js_le base (limite (TABELA_IRRF_052025 ! j)))"
    then have "escolherFaixa_loop TABELA_IRRF_052025 base = Some (TABELA_IRRF_052025 ! i)"
      using len by (intro escolherFaixa_loop_first) simp_all
    then show "escolherFaixa base = TABELA_IRRF_052025 ! i"
      by (simp add: escolherFaixa_def)
  qed
  show "(\<forall>j<5. \<not> js_le base (limite (TABELA_IRRF_052025 ! j)))
         \<longrightarrow> escolherFaixa base = TABELA_IRRF_052025 ! 4"
  proof
    assume "\<forall>j<5. \<not> js_le base (limite (TABELA_IRRF_052025 ! j))"
    then have "escolherFaixa_loop TABELA_IRRF_052025 base = None"
      using len by (intro escolherFaixa_loop_none) simp
    then show "escolherFaixa base = TABELA_IRRF_052025 ! 4"
      by (simp add: escolherFaixa_def len)
  qed
  show "\<forall>i<5. escolherFaixa (limite (TABELA_IRRF_052025 ! i)) = TABELA_IRRF_052025 ! i"
  proof (intro allI impI)
    fix i :: nat
    assume "i < 5"
    then consider "i = 0" | "i = 1" | "i = 2" | "i = 3" | "i = 4" by linarith
    then show "escolherFaixa (limite (TABELA_IRRF_052025 ! i)) = TABELA_IRRF_052025 ! i"
      by cases (simp_all add: escolherFaixa_def TABELA_IRRF_052025_def)
  qed
qed

theorem escolherFaixa_first_match_witness:
  "escolherFaixa (Fin 2428.80) = \<lparr>limite = Fin 2428.80, aliquota = Fin 0, deducao = Fin 0\<rparr>
   \<and> escolherFaixa (Fin 2428.81) = \<lparr>limite = Fin 2826.65, aliquota = Fin 7.5, deducao = Fin 182.16\<rparr>
   \<and> escolherFaixa NaN = \<lparr>limite = PInf, aliquota = Fin 27.5, deducao = Fin 908.73\<rparr>"
  using escolherFaixa_first_match [of "Fin 2428.80"] escolherFaixa_first_match [of "Fin 2428.81"]
    escolherFaixa_first_match [of NaN]
  by (simp add: TABELA_IRRF_052025_def)

section \<open>Inputs that pass validation\<close>










section \<open>The response\<close>

lemma campos_corpo:
  "campos (corpo rt po qd pa) = (JNum (Fin rt), JNum (Fin po), JNum (Fin qd), JNum (Fin pa))"
  by (simp add: campos_def corpo_def get_prop_def nullish_def)

lemma validacoes_corpo:
  "0 \<le> rt \<Longrightarrow> 0 \<le> po \<Longrightarrow> 0 \<le> qd \<Longrightarrow> 0 \<le> pa \<Longrightarrow> qd = of_int \<lfloor>qd\<rfloor>
   \<Longrightarrow> validacoes (corpo rt po qd pa) = Inr (entrada_de rt po qd pa)"
  by (simp add: validacoes_def campos_corpo entrada_de_def)







lemma calcular_irrf_valid:
  "validacoes b = Inr e \<Longrightarrow> calcular_irrf_v1 b = Inr (resposta_v1 e)"
  "validacoes b = Inr e \<Longrightarrow> calcular_irrf_v2 b = Inr (resposta_v2 e)"
  by (simp_all add: calcular_irrf_v1_def calcular_irrf_v2_def)


section \<open>Bounds and the agreement of the two variants\<close>







section \<open>The shape of the response\<close>







section \<open>Validation\<close>

lemma numero_finito_iff: "numero_finito v = isFiniteNumber v"
proof (cases v)
  case (JNum x)
  then show ?thesis by (cases x) (simp_all add: numero_finito_def)
qed (simp_all add: numero_finito_def)

lemma numero_finito_valor: "numero_finito v \<Longrightarrow> v = JNum (Fin (valor v))"
proof (cases v)
  case (JNum x)
  assume "numero_finito v"
  with JNum show ?thesis by (cases x) (simp_all add: numero_finito_def valor_def)
qed (simp_all add: numero_finito_def)

text \<open>
  Claim C7. The four fields are those the handler reads from the body: the alimony
  under either of its two keys, and 0 when it is absent. When one of them is not a
  finite number, or income, contribution or alimony is negative, or the number of
  dependents is not a non-negative integer, both variants return the status 400 with
  the message of the first check that fails, and no result; the three messages differ.
  When all checks pass both variants return the computed response.
\<close>

theorem validacao_erros:
  assumes "campos b = (rt, po, qd, pa)"
  shows "(\<not> (numero_finito rt \<and> numero_finito po \<and> numero_finito qd \<and> numero_finito pa) \<longrightarrow>
            calcular_irrf_v1 b = Inl (Status400 erro_campos_invalidos)
            \<and> calcular_irrf_v2 b = Inl (Status400 erro_campos_invalidos))
    \<and> (numero_finito rt \<and> numero_finito po \<and> numero_finito qd \<and> numero_finito pa
          \<and> (valor rt < 0 \<or> valor po < 0 \<or> valor pa < 0) \<longrightarrow>
            calcular_irrf_v1 b = Inl (Status400 erro_negativos)
            \<and> calcular_irrf_v2 b = Inl (Status400 erro_negativos))
    \<and> (numero_finito rt \<and> numero_finito po \<and> numero_finito qd \<and> numero_finito pa
          \<and> 0 \<le> valor rt \<and> 0 \<le> valor po \<and> 0 \<le> valor pa
          \<and> (valor qd \<noteq> of_int \<lfloor>valor qd\<rfloor> \<or> valor qd < 0) \<longrightarrow>
            calcular_irrf_v1 b = Inl (Status400 erro_dependentes)
            \<and> calcular_irrf_v2 b = Inl (Status400 erro_dependentes))
    \<and> (numero_finito rt \<and> numero_finito po \<and> numero_finito qd \<and> numero_finito pa
          \<and> 0 \<le> valor rt \<and> 0 \<le> valor po \<and> 0 \<le> valor pa
          \<and> valor qd = of_int \<lfloor>valor qd\<rfloor> \<and> 0 \<le> valor qd \<longrightarrow>
            calcular_irrf_v1 b
              = Inr (resposta_v1 (entrada_de (valor rt) (valor po) (valor qd) (valor pa)))
            \<and> calcular_irrf_v2 b
              = Inr (resposta_v2 (entrada_de (valor rt) (valor po) (valor qd) (valor pa))))
    \<and> erro_campos_invalidos \<noteq> erro_negativos \<and> erro_campos_invalidos \<noteq> erro_dependentes
    \<and> erro_negativos \<noteq> erro_dependentes"
proof -
  have nf: "validacoes b = Inl (Status400 erro_campos_invalidos)"
    if "\<not> (numero_finito rt \<and> numero_finito po \<and> numero_finito qd \<and> numero_finito pa)"
    using that assms by (auto simp: validacoes_def numero_finito_iff)
  have fin: "validacoes b =
      (if valor rt < 0 \<or> valor po < 0 \<or> valor pa < 0 then Inl (Status400 erro_negativos)
       else if valor qd \<noteq> of_int \<lfloor>valor qd\<rfloor> \<or> valor qd < 0
       then Inl (Status400 erro_dependentes)
       else Inr (entrada_de (valor rt) (valor po) (valor qd) (valor pa)))"
    if f: "numero_finito rt" "numero_finito po" "numero_finito qd" "numero_finito pa"
  proof -
    from f have n: "rt = JNum (Fin (valor rt))" "po = JNum (Fin (valor po))"
      "qd = JNum (Fin (valor qd))" "pa = JNum (Fin (valor pa))"
      by (simp_all add: numero_finito_valor)
    have "validacoes b = (case (JNum (Fin (valor rt)), JNum (Fin (valor po)),
        JNum (Fin (valor qd)), JNum (Fin (valor pa))) of (rt, po, qd, pa) \<Rightarrow>
        if \<not> isFiniteNumber rt \<or> \<not> isFiniteNumber po \<or> \<not> isFiniteNumber qd
           \<or> \<not> isFiniteNumber pa
        then Inl (Status400 erro_campos_invalidos)
        else if js_lt (numero rt) (Fin 0) \<or> js_lt (numero po) (Fin 0)
                \<or> js_lt (numero pa) (Fin 0)
        then Inl (Status400 erro_negativos)
        else if \<not> isInteger (numero qd) \<or> js_lt (numero qd) (Fin 0)
        then Inl (Status400 erro_dependentes)
        else Inr \<lparr>rendimento_tributavel = numero rt, previdencia_oficial = numero po,
                  quantidade_dependentes = numero qd, pensao_alimenticia = numero pa\<rparr>)"
      unfolding validacoes_def assms using n by simp
    then show ?thesis by (simp add: entrada_de_def)
  qed
  have msgs: "erro_campos_invalidos \<noteq> erro_negativos"
    "erro_campos_invalidos \<noteq> erro_dependentes" "erro_negativos \<noteq> erro_dependentes"
    by (simp_all add: erro_campos_invalidos_def erro_negativos_def erro_dependentes_def)
  show ?thesis
    using nf fin msgs by (simp add: calcular_irrf_v1_def calcular_irrf_v2_def)
qed

theorem validacao_erros_witness:
  "calcular_irrf_v1 (corpo 5000 750 2.5 0) = Inl (Status400 erro_dependentes)
   \<and> calcular_irrf_v2 (corpo 5000 750 2.5 0) = Inl (Status400 erro_dependentes)
   \<and> calcular_irrf_v1 (corpo (- 1) 0 0 0) = Inl (Status400 erro_negativos)
   \<and> calcular_irrf_v2 (corpo (- 1) 0 0 0) = Inl (Status400 erro_negativos)
   \<and> calcular_irrf_v1 (Some [''rendimento_tributavel'' \<mapsto> JStr ''5000'',
        ''previdencia_oficial'' \<mapsto> JNum (Fin 750), ''quantidade_dependentes'' \<mapsto> JNum (Fin 2)])
       = Inl (Status400 erro_campos_invalidos)
   \<and> calcular_irrf_v1 (Some [''rendimento_tributavel'' \<mapsto> JNum (Fin 5000),
        ''previdencia_oficial'' \<mapsto> JNum (Fin 750), ''quantidade_dependentes'' \<mapsto> JNum (Fin 2)])
       = Inr (resposta_v1 (entrada_de 5000 750 2 0))"
proof -
  have c1: "campos (corpo 5000 750 2.5 0)
      = (JNum (Fin 5000), JNum (Fin 750), JNum (Fin 2.5), JNum (Fin 0))"
    by (rule campos_corpo)
  have c2: "campos (corpo (- 1) 0 0 0) = (JNum (Fin (- 1)), JNum (Fin 0), JNum (Fin 0), JNum (Fin 0))"
    by (rule campos_corpo)
  have c3: "campos (Some [''rendimento_tributavel'' \<mapsto> JStr ''5000'',
        ''previdencia_oficial'' \<mapsto> JNum (Fin 750), ''quantidade_dependentes'' \<mapsto> JNum (Fin 2)])
      = (JStr ''5000'', JNum (Fin 750), JNum (Fin 2), JNum (Fin 0))"
    by (simp add: campos_def get_prop_def nullish_def)
  have c4: "campos (Some [''rendimento_tributavel'' \<mapsto> JNum (Fin 5000),
        ''previdencia_oficial'' \<mapsto> JNum (Fin 750), ''quantidade_dependentes'' \<mapsto> JNum (Fin 2)])
      = (JNum (Fin 5000), JNum (Fin 750), JNum (Fin 2), JNum (Fin 0))"
    by (simp add: campos_def get_prop_def nullish_def)
  have fl: "\<lfloor>(5 / 2)::rat\<rfloor> = 2" by (rule floor_unique) simp_all
  show ?thesis
    using validacao_erros [OF c1] validacao_erros [OF c2] validacao_erros [OF c3]
      validacao_erros [OF c4]
    by (simp add: numero_finito_def valor_def fl)
qed



section \<open>The calculation trace\<close>





section \<open>Scenario A\<close>

text \<open>
  Claim C1, as the code has it. For the income 5000, the contribution 750, two
  dependents and no alimony, the deduction for dependents is 379.18 and the sum of the
  deductions is 1129.18, on the itemized path; the net base is 3870.82. This base lies
  above the limit 3751.05 of the third row, so the row selected is the fourth: the rate
  is 22.5 and the table deduction 675.49. The tax before the reduction is 195.44, the
  reduction is the minimum of 195.44 and 312.89, that is 195.44, and the final tax is 0.
\<close>

theorem cenario_A:
  "validacoes (corpo 5000 750 2 0) = Inr (entrada_de 5000 750 2 0)
   \<and> deducao_dependentes (entrada_de 5000 750 2 0) = Fin 379.18
   \<and> soma_deducoes (entrada_de 5000 750 2 0) = Fin 1129.18
   \<and> \<not> simplificado_minimo_usado (entrada_de 5000 750 2 0)
   \<and> deducao_total_aplicada (entrada_de 5000 750 2 0) = Fin 1129.18
   \<and> base_liquida_irrf (entrada_de 5000 750 2 0) = Fin 3870.82
   \<and> aliquota_irrf (entrada_de 5000 750 2 0) = Fin 22.5
   \<and> deducao_conforme_tabela (entrada_de 5000 750 2 0) = Fin 675.49
   \<and> valor_irrf (entrada_de 5000 750 2 0) = Fin 195.44
   \<and> reducao_pl_1087_25 (entrada_de 5000 750 2 0) = Math_min (Fin 195.44) (Fin 312.89)
   \<and> reducao_pl_1087_25 (entrada_de 5000 750 2 0) = Fin 195.44
   \<and> reducao_pl_aplicada (entrada_de 5000 750 2 0) = Fin 195.44
   \<and> valor_irrf_apos_pl_1087_25_v1 (entrada_de 5000 750 2 0) = Fin 0
   \<and> valor_irrf_apos_pl_1087_25_v2 (entrada_de 5000 750 2 0) = Fin 0"
proof (intro conjI)
  show "validacoes (corpo 5000 750 2 0) = Inr (entrada_de 5000 750 2 0)"
    by (simp add: validacoes_corpo)
  show "deducao_dependentes (entrada_de 5000 750 2 0) = Fin 379.18" by code_simp
  show "soma_deducoes (entrada_de 5000 750 2 0) = Fin 1129.18" by code_simp
  show "\<not> simplificado_minimo_usado (entrada_de 5000 750 2 0)" by code_simp
  show "deducao_total_aplicada (entrada_de 5000 750 2 0) = Fin 1129.18" by code_simp
  show "base_liquida_irrf (entrada_de 5000 750 2 0) = Fin 3870.82" by code_simp
  show "aliquota_irrf (entrada_de 5000 750 2 0) = Fin 22.5" by code_simp
  show "deducao_conforme_tabela (entrada_de 5000 750 2 0) = Fin 675.49" by code_simp
  show "valor_irrf (entrada_de 5000 750 2 0) = Fin 195.44" by code_simp
  show "reducao_pl_1087_25 (entrada_de 5000 750 2 0) = Math_min (Fin 195.44) (Fin 312.89)"
    by code_simp
  show "reducao_pl_1087_25 (entrada_de 5000 750 2 0) = Fin 195.44" by code_simp
  show "reducao_pl_aplicada (entrada_de 5000 750 2 0) = Fin 195.44" by code_simp
  show "valor_irrf_apos_pl_1087_25_v1 (entrada_de 5000 750 2 0) = Fin 0" by code_simp
  show "valor_irrf_apos_pl_1087_25_v2 (entrada_de 5000 750 2 0) = Fin 0" by code_simp
qed

text \<open>The response of variant 1 to the request of scenario A, from the values above.\<close>

theorem cenario_A_witness:
  "calcular_irrf_v1 (corpo 5000 750 2 0) =
     Inr [(''rendimento_tributavel'', JNum (Fin 5000)),
          (''previdencia_oficial'', JNum (Fin 750)),
          (''quantidade_dependentes'', JNum (Fin 2)),
          (''pensao_alimenticia'', JNum (Fin 0)),
          (''valor_deducoes_dependentes'', JNum (Fin 379.18)),
          (''base_liquida_irrf'', JNum (Fin 3870.82)),
          (''aliquota_irrf'', JNum (Fin 22.5)),
          (''deducao_conforme_tabela'', JNum (Fin 675.49)),
          (''valor_irrf'', JNum (Fin 195.44)),
          (''reducao_pl_1087_25'', JNum (Fin 195.44)),
          (''valor_irrf_apos_pl_1087_25'', JNum (Fin 0))]"
proof -
  let ?e = "entrada_de 5000 750 2 0"
  note A = cenario_A
  have v: "validacoes (corpo 5000 750 2 0) = Inr ?e" using A by blast
  have s: "\<not> simplificado_minimo_usado ?e" using A by blast
  have c: "deducao_dependentes ?e = Fin 379.18" "base_liquida_irrf ?e = Fin 3870.82"
    "aliquota_irrf ?e = Fin 22.5" "deducao_conforme_tabela ?e = Fin 675.49"
    "valor_irrf ?e = Fin 195.44" "reducao_pl_1087_25 ?e = Fin 195.44"
    "valor_irrf_apos_pl_1087_25_v1 ?e = Fin 0"
    using A by blast+
  have f: "rendimento_tributavel ?e = Fin 5000" "previdencia_oficial ?e = Fin 750"
    "quantidade_dependentes ?e = Fin 2" "pensao_alimenticia ?e = Fin 0"
    by (simp_all add: entrada_de_def)
  have r: "round2 (Fin 379.18) = Fin 379.18" "round2 (Fin 3870.82) = Fin 3870.82"
    "round2 (Fin 675.49) = Fin 675.49"
    using round2_cents [of 37918] round2_cents [of 387082] round2_cents [of 67549] by simp_all
  have "resposta_v1 ?e =
     [(''rendimento_tributavel'', JNum (Fin 5000)),
      (''previdencia_oficial'', JNum (Fin 750)),
      (''quantidade_dependentes'', JNum (Fin 2)),
      (''pensao_alimenticia'', JNum (Fin 0)),
      (''valor_deducoes_dependentes'', JNum (Fin 379.18)),
      (''base_liquida_irrf'', JNum (Fin 3870.82)),
      (''aliquota_irrf'', JNum (Fin 22.5)),
      (''deducao_conforme_tabela'', JNum (Fin 675.49)),
      (''valor_irrf'', JNum (Fin 195.44)),
      (''reducao_pl_1087_25'', JNum (Fin 195.44)),
      (''valor_irrf_apos_pl_1087_25'', JNum (Fin 0))]"
    using s r by (simp add: resposta_v1_def resposta_comum_def c f round2_zero js_gt_def)
  then show ?thesis using calcular_irrf_valid(1) [OF v] by simp
qed

text \<open>
  Claim C1 as stated fails: on the base 3870.82 the code does not select the rate 7.5
  with the table deduction 182.16, and the tax before the reduction is not 107.11.
\<close>

theorem cenario_A_counterexample:
  "base_liquida_irrf (entrada_de 5000 750 2 0) = Fin 3870.82
   \<and> aliquota_irrf (entrada_de 5000 750 2 0) \<noteq> Fin 7.5
   \<and> deducao_conforme_tabela (entrada_de 5000 750 2 0) \<noteq> Fin 182.16
   \<and> valor_irrf (entrada_de 5000 750 2 0) \<noteq> Fin 107.11
   \<and> reducao_pl_1087_25 (entrada_de 5000 750 2 0) \<noteq> Fin 107.11"
  by (intro conjI; code_simp)

end
